theory Spec2Isabelle
  imports Complex_Main
begin

section \<open>Heuristic geometry of molecular graphs (automol/graph/\_geom2.py)\<close>

text \<open>
  A shallow embedding of the graph geometry library: the heuristic bond distance and
  bond angle, the bond angle that closes a circular arc, and the z-matrix builders for a
  chain, a ring and a ring system.

  Conventions of the embedding.
  \<^item> A Python float is a \<open>real\<close>. Two results are rounded to the nearest double, as the
    machine rounds them, because the branch taken and the equation solved turn on them:
    the product of the straight-chain test and the quotient of the two distances in
    \<open>ring_arc_bond_angle\<close>. The remaining arithmetic is exact.
  \<^item> Every exception the Python can raise is a value \<open>Inl e\<close> of \<open>error + 'a\<close>.
  \<^item> Functions of other libraries (qcelemental, scipy) and of automol modules other
    than the two embedded here are arguments of the functions that call them; the few
    that are modelled instead say so.
\<close>

subsection \<open>Errors\<close>

datatype error =
  AssertionError
  | KeyError
  | IndexError
  | ValueError
  | ZeroDivisionError
  | StopIteration
  | LibraryError string

text \<open>\<open>d[k]\<close> on a dictionary: KeyError when the key is missing.\<close>

definition getitem :: "('k \<rightharpoonup> 'v) \<Rightarrow> 'k \<Rightarrow> error + 'v" where
  "getitem d k = (case d k of None \<Rightarrow> Inl KeyError | Some v \<Rightarrow> Inr v)"

text \<open>Sequencing of computations that may raise.\<close>

definition bind :: "error + 'a \<Rightarrow> ('a \<Rightarrow> error + 'b) \<Rightarrow> error + 'b" where
  "bind m f = (case m of Inl e \<Rightarrow> Inl e | Inr x \<Rightarrow> f x)"

text \<open>The \<open>assert\<close> statement.\<close>

definition assert :: "bool \<Rightarrow> error + unit" where
  "assert c = (if c then Inr () else Inl AssertionError)"

subsection \<open>The molecular graph (automol/graph/\_graph\_base.py)\<close>

text \<open>
  A graph is a pair of dictionaries: atom key to (symbol, implicit hydrogen valence,
  stereo parity), and bond key (a set of two atom keys) to (order, stereo parity).
\<close>

type_synonym atom_key = nat
type_synonym atom_props = "string \<times> int \<times> bool option"
type_synonym bond_props = "int \<times> bool option"
type_synonym graph = "(atom_key \<rightharpoonup> atom_props) \<times> (atom_key set \<rightharpoonup> bond_props)"

definition atoms :: "graph \<Rightarrow> (atom_key \<rightharpoonup> atom_props)" where
  "atoms xgr = (case xgr of (atm_dct, _) \<Rightarrow> atm_dct)"

definition bonds :: "graph \<Rightarrow> (atom_key set \<rightharpoonup> bond_props)" where
  "bonds xgr = (case xgr of (_, bnd_dct) \<Rightarrow> bnd_dct)"

definition atom_keys :: "graph \<Rightarrow> atom_key set" where
  "atom_keys xgr = dom (atoms xgr)"

definition bond_keys :: "graph \<Rightarrow> atom_key set set" where
  "bond_keys xgr = dom (bonds xgr)"

text \<open>
  Modelled from the spec: \<open>mdict.by_key_by_position\<close> (automol.dict\_.multi) is not among
  the embedded files. \<open>atom_symbols(xgr)\<close> calls it with the atom dictionary, the atom
  keys and \<open>ATM_SYM_POS = 0\<close>: the dictionary from each atom key to the first component
  of its entry, the symbol.
\<close>

definition atom_symbols :: "graph \<Rightarrow> (atom_key \<rightharpoonup> string)" where
  "atom_symbols xgr = (\<lambda>k. map_option fst (atoms xgr k))"

subsection \<open>Constants\<close>

definition XY_DIST :: real where "XY_DIST = 1.5"
definition XH_DIST :: real where "XH_DIST = 1.1"

definition TET_ANG :: real where "TET_ANG = 109.4712"
definition TRI_ANG :: real where "TRI_ANG = 120"
definition LIN_ANG :: real where "LIN_ANG = 180"

definition CIS_DIH :: real where "CIS_DIH = 0"
definition TRA_DIH :: real where "TRA_DIH = 180"

definition RIT_ANG :: real where "RIT_ANG = 90"

subsection \<open>Heuristic bond distance and bond angle\<close>

text \<open>
  The collaborators that are not part of the embedded files are arguments:
  \<^item> \<open>nkeys\<close> is \<open>atom_neighbor_keys\<close> (automol.graph.\_graph): the dictionary from an
    atom key to the set of its neighbours' keys;
  \<^item> \<open>to_Z\<close> is qcelemental's \<open>periodictable.to_Z\<close>: the atomic number of a symbol, or
    an exception for a string that names no element;
  \<^item> \<open>hybs\<close> is \<open>resonance_dominant_atom_hybridizations\<close> (automol.graph.\_res): the
    dictionary from an atom key to its hybridization.
\<close>

type_synonym neighbor_keys = "graph \<Rightarrow> (atom_key \<rightharpoonup> atom_key set)"
type_synonym periodic_table = "string \<Rightarrow> error + nat"
type_synonym hybridizations = "graph \<Rightarrow> (atom_key \<rightharpoonup> int)"

text \<open>
  Python's \<open>or\<close> is short-circuit: \<open>to_Z(sym2)\<close> is evaluated only when
  \<open>to_Z(sym1)\<close> is not 1.
\<close>

definition heuristic_bond_distance ::
  "neighbor_keys \<Rightarrow> periodic_table \<Rightarrow> graph \<Rightarrow> atom_key \<Rightarrow> atom_key \<Rightarrow> bool \<Rightarrow> error + real"
where
  "heuristic_bond_distance nkeys to_Z gra key1 key2 check =
     bind (if check
           then bind (getitem (nkeys gra) key2) (\<lambda>ks. assert (key1 \<in> ks))
           else Inr ())
     (\<lambda>_. bind (getitem (atom_symbols gra) key1)
     (\<lambda>sym1. bind (getitem (atom_symbols gra) key2)
     (\<lambda>sym2. bind (to_Z sym1)
     (\<lambda>z1. if z1 = 1 then Inr XH_DIST
           else bind (to_Z sym2)
                (\<lambda>z2. if z2 = 1 then Inr XH_DIST else Inr XY_DIST)))))"

definition heuristic_bond_angle ::
  "neighbor_keys \<Rightarrow> hybridizations \<Rightarrow> graph \<Rightarrow> atom_key \<Rightarrow> atom_key \<Rightarrow> atom_key \<Rightarrow> bool
     \<Rightarrow> error + real"
where
  "heuristic_bond_angle nkeys hybs gra key1 key2 key3 check =
     bind (if check
           then bind (getitem (nkeys gra) key2) (\<lambda>ks. assert ({key1, key3} \<subseteq> ks))
           else Inr ())
     (\<lambda>_. bind (getitem (hybs gra) key2)
     (\<lambda>hyb2. if hyb2 = 3 then Inr TET_ANG
             else if hyb2 = 2 then Inr TRI_ANG
             else bind (assert (hyb2 = 1)) (\<lambda>_. Inr LIN_ANG)))"

subsection \<open>Rounding to double precision\<close>

text \<open>
  The result of an arithmetic operation on doubles is the exact result rounded to the
  nearest double, ties to the even significand (IEEE 754, binary64).

  \<open>round_half_even\<close> rounds a real to the nearest integer, a tie to the even one.
\<close>

definition round_half_even :: "real \<Rightarrow> int" where
  "round_half_even y =
     (if y - of_int \<lfloor>y\<rfloor> < 1 / 2 then \<lfloor>y\<rfloor>
      else if 1 / 2 < y - of_int \<lfloor>y\<rfloor> then \<lfloor>y\<rfloor> + 1
      else if even \<lfloor>y\<rfloor> then \<lfloor>y\<rfloor> else \<lfloor>y\<rfloor> + 1)"

text \<open>
  \<open>binade x\<close> is the exponent \<open>k\<close> with \<open>2^k \<le> |x| < 2^(k+1)\<close>. The doubles of that
  binade are the multiples of \<open>ulp x = 2^(k - 52)\<close>; below \<open>2^-1022\<close> (the subnormal
  numbers) the spacing stays \<open>2^-1074\<close>.
\<close>

definition binade :: "real \<Rightarrow> int" where
  "binade x = \<lfloor>log 2 \<bar>x\<bar>\<rfloor>"

definition ulp :: "real \<Rightarrow> real" where
  "ulp x = 2 powi (max (binade x) (- 1022) - 52)"

text \<open>
  The double nearest to \<open>x\<close>. A result beyond the largest double (overflow to
  infinity) is not modelled: the exponent is not bounded above.
\<close>

definition round_double :: "real \<Rightarrow> real" where
  "round_double x = (if x = 0 then 0 else ulp x * of_int (round_half_even (x / ulp x)))"

subsection \<open>The bond angle of a circular arc\<close>

text \<open>
  \<open>root_scalar\<close> is \<open>scipy.optimize.root_scalar(f, method='brentq', bracket=[a, b])\<close>,
  an argument of the model: it is given the residual and the two ends of the bracket and
  returns a result object, or raises (brentq raises ValueError when the residual has the
  same sign at both ends). The residual itself may raise.
\<close>

record root_results =
  root :: real
  converged :: bool

type_synonym root_finder = "(real \<Rightarrow> error + real) \<Rightarrow> real \<Rightarrow> real \<Rightarrow> error + root_results"

text \<open>
  The inner function \<open>_f\<close> of \<open>ring_arc_bond_angle\<close>, closed over \<open>num\<close>, \<open>end_dist\<close>
  and \<open>bond_dist\<close>. \<open>theta/(2*(num-1))\<close> divides a Python float by an integer and
  \<open>bond_dist / end_dist\<close> divides Python floats: both raise ZeroDivisionError on a zero
  divisor. The quotient of the two distances is rounded to the nearest double. The
  quotient of the two sines is a quotient of reals here; in double precision
  \<open>sin(theta/2)\<close> is not zero for any \<open>theta\<close> of the bracket, so no statement below
  reads the quotient where the real sine vanishes.
\<close>

definition ring_arc_bond_angle_f :: "int \<Rightarrow> real \<Rightarrow> real \<Rightarrow> real \<Rightarrow> error + real" where
  "ring_arc_bond_angle_f num end_dist bond_dist theta0 =
     (let theta = (if \<bar>theta0\<bar> < 0.001 then 0.001 else theta0) in
      if 2 * (num - 1) = 0 then Inl ZeroDivisionError
      else let rhs = sin (theta / real_of_int (2 * (num - 1))) / sin (theta / 2) in
           if end_dist = 0 then Inl ZeroDivisionError
           else let lhs = round_double (bond_dist / end_dist) in Inr (rhs - lhs))"

text \<open>\<open>qcc.conversion_factor('radian', 'degree')\<close> of qcelemental.\<close>

definition radian_to_degree :: real where
  "radian_to_degree = 180 / pi"

text \<open>
  \<open>ring_arc_bond_angle(num, end_dist=XY_DIST, bond_dist=XY_DIST)\<close>; the model takes both
  distances explicitly. In the test \<open>end_dist > (num - 1) * bond_dist\<close> the integer
  \<open>num - 1\<close> becomes a double (exactly, for an integer of at most \<open>2^53\<close> in size) and
  the product is rounded to the nearest double.
\<close>

definition ring_arc_bond_angle :: "root_finder \<Rightarrow> int \<Rightarrow> real \<Rightarrow> real \<Rightarrow> error + real" where
  "ring_arc_bond_angle root_scalar num end_dist bond_dist =
     (if end_dist > round_double (real_of_int (num - 1) * bond_dist) then Inr 180
      else bind (root_scalar (ring_arc_bond_angle_f num end_dist bond_dist) 0.01 (2 * pi))
           (\<lambda>res_obj. bind (assert (converged res_obj))
           (\<lambda>_. let theta = root res_obj * radian_to_degree in
                if num - 1 = 0 then Inl ZeroDivisionError
                else Inr (180 - theta / real_of_int (num - 1)))))"

text \<open>
  What every bracketing root finder guarantees: a root it returns lies in the bracket
  it was given.
\<close>

definition respects_bracket :: "root_finder \<Rightarrow> bool" where
  "respects_bracket root_scalar =
     (\<forall>f a b res. root_scalar f a b = Inr res \<longrightarrow> a \<le> root res \<and> root res \<le> b)"

text \<open>
  Two root finders for the examples. The first returns the lower end of a well-formed
  bracket, as brentq does when the residual is zero there; the second converges to a
  given point.
\<close>

definition lower_end_finder :: root_finder where
  "lower_end_finder f a b =
     (if a \<le> b then Inr \<lparr>root = a, converged = True\<rparr> else Inl ValueError)"

definition exact_root_finder :: "real \<Rightarrow> root_finder" where
  "exact_root_finder r f a b = Inr \<lparr>root = r, converged = True\<rparr>"


subsection \<open>Z-matrices\<close>

text \<open>
  Modelled from the spec: the z-matrix of \<open>automol.zmat\<close>, which is not among the embedded
  files. A z-matrix is a tuple of rows; a row holds the atom's symbol, the row of keys
  (up to three earlier rows, \<open>None\<close> where there is none) and the row of values
  (distance, angle, dihedral).
\<close>

record zrow =
  symb :: string
  key_row :: "nat option list"
  val_row :: "real option list"

type_synonym zmatrix = "zrow list"

text \<open>Modelled from the spec: \<open>automol.zmat.count\<close>, the number of rows.\<close>

definition count :: "zmatrix \<Rightarrow> nat" where
  "count zm = length zm"

text \<open>
  Modelled from the spec: \<open>automol.zmat.add_atom\<close> appends one row, with the symbol, the
  key row and the value row it is given, and leaves the earlier rows as they are.
\<close>

definition add_atom :: "zmatrix \<Rightarrow> string \<Rightarrow> nat option list \<Rightarrow> real option list \<Rightarrow> zmatrix" where
  "add_atom zm s krow vrow = zm @ [\<lparr>symb = s, key_row = krow, val_row = vrow\<rparr>]"

subsection \<open>Loops and sequences\<close>

text \<open>A \<open>for\<close> loop over a sequence whose body may raise: the first exception ends it.\<close>

fun for_each :: "('s \<Rightarrow> 'a \<Rightarrow> error + 's) \<Rightarrow> 'a list \<Rightarrow> 's \<Rightarrow> error + 's" where
  "for_each body [] st = Inr st"
| "for_each body (x # xs) st = bind (body st x) (for_each body xs)"

text \<open>\<open>tuple(map(d.__getitem__, ks))\<close>.\<close>

fun getitems :: "('k \<rightharpoonup> 'v) \<Rightarrow> 'k list \<Rightarrow> error + 'v list" where
  "getitems d [] = Inr []"
| "getitems d (k # ks) =
     bind (getitem d k) (\<lambda>v. bind (getitems d ks) (\<lambda>vs. Inr (v # vs)))"

text \<open>
  Subscripting a tuple, \<open>xs[i]\<close>: position \<open>i\<close> from the front when \<open>i\<close> is not
  negative, position \<open>len(xs) + i\<close> when it is, and IndexError outside the tuple.
\<close>

definition seq_getitem :: "'a list \<Rightarrow> int \<Rightarrow> error + 'a" where
  "seq_getitem xs i =
     (if 0 \<le> i \<and> i < int (length xs) then Inr (xs ! nat i)
      else if i < 0 \<and> - int (length xs) \<le> i then Inr (xs ! nat (int (length xs) + i))
      else Inl IndexError)"

text \<open>\<open>xs.index(x)\<close>: the first position of \<open>x\<close>, ValueError when there is none.\<close>

fun index :: "'a list \<Rightarrow> 'a \<Rightarrow> error + nat" where
  "index [] x = Inl ValueError"
| "index (y # ys) x = (if y = x then Inr 0 else bind (index ys x) (\<lambda>i. Inr (Suc i)))"

text \<open>\<open>dict(zip(ks, vs))\<close>: a later pair replaces an earlier one with the same key.\<close>

definition dict_zip :: "'k list \<Rightarrow> 'v list \<Rightarrow> ('k \<rightharpoonup> 'v)" where
  "dict_zip ks vs = foldl (\<lambda>d (k, v). d(k \<mapsto> v)) Map.empty (zip ks vs)"

subsection \<open>The z-matrix builders\<close>

text \<open>
  The local variables of the loops of \<open>chain_zmatrix\<close> and \<open>ring_zmatrix\<close>. Both
  functions keep the row dictionary, the z-matrix, the three previous keys with their
  rows, and the three values of the next row.
\<close>

record locals =
  v_row_dct :: "atom_key \<rightharpoonup> nat"
  v_zma :: zmatrix
  v_key3 :: "atom_key option"
  v_row3 :: "nat option"
  v_r34 :: "real option"
  v_key2 :: "atom_key option"
  v_row2 :: "nat option"
  v_a234 :: "real option"
  v_key1 :: "atom_key option"
  v_row1 :: "nat option"
  v_d1234 :: "real option"

text \<open>
  The body of the loop of \<open>chain_zmatrix\<close> for the key \<open>key4\<close>. In
  \<open>heuristic_bond_angle(gra, key2, key3, key4)\<close> a \<open>key3\<close> that is still \<open>None\<close> would
  be looked up in the neighbour dictionary, which has no such key.
\<close>

definition chain_zmatrix_body ::
  "neighbor_keys \<Rightarrow> periodic_table \<Rightarrow> hybridizations \<Rightarrow> graph \<Rightarrow> (atom_key \<rightharpoonup> string)
     \<Rightarrow> locals \<Rightarrow> atom_key \<Rightarrow> error + locals"
where
  "chain_zmatrix_body nkeys to_Z hybs gra sym_dct st0 key4 =
     (let st1 = st0\<lparr>v_row_dct := (v_row_dct st0)(key4 \<mapsto> count (v_zma st0))\<rparr> in
      bind (case v_key3 st1 of
              None \<Rightarrow> Inr st1
            | Some key3 \<Rightarrow>
                bind (getitem (v_row_dct st1) key3)
                (\<lambda>row3. bind (heuristic_bond_distance nkeys to_Z gra key3 key4 True)
                (\<lambda>r34. Inr (st1\<lparr>v_row3 := Some row3, v_r34 := Some r34\<rparr>))))
      (\<lambda>st2. bind (case v_key2 st2 of
              None \<Rightarrow> Inr st2
            | Some key2 \<Rightarrow>
                bind (getitem (v_row_dct st2) key2)
                (\<lambda>row2. bind (case v_key3 st2 of
                                None \<Rightarrow> Inl KeyError
                              | Some key3 \<Rightarrow> heuristic_bond_angle nkeys hybs gra key2 key3 key4 True)
                (\<lambda>a234. Inr (st2\<lparr>v_row2 := Some row2, v_a234 := Some a234\<rparr>))))
      (\<lambda>st3. bind (case v_key1 st3 of
              None \<Rightarrow> Inr st3
            | Some key1 \<Rightarrow>
                bind (getitem (v_row_dct st3) key1)
                (\<lambda>row1. Inr (st3\<lparr>v_row1 := Some row1, v_d1234 := Some TRA_DIH\<rparr>)))
      (\<lambda>st4. bind (getitem sym_dct key4)
      (\<lambda>sym4. Inr (st4\<lparr>v_zma := add_atom (v_zma st4) sym4
                                  [v_row3 st4, v_row2 st4, v_row1 st4]
                                  [v_r34 st4, v_a234 st4, v_d1234 st4],
                     v_key1 := v_key2 st4, v_key2 := v_key3 st4, v_key3 := Some key4\<rparr>))))))"

definition chain_zmatrix_init :: locals where
  "chain_zmatrix_init =
     \<lparr>v_row_dct = Map.empty, v_zma = [],
      v_key3 = None, v_row3 = None, v_r34 = None,
      v_key2 = None, v_row2 = None, v_a234 = None,
      v_key1 = None, v_row1 = None, v_d1234 = None\<rparr>"

definition chain_zmatrix ::
  "neighbor_keys \<Rightarrow> periodic_table \<Rightarrow> hybridizations \<Rightarrow> graph \<Rightarrow> atom_key list
     \<Rightarrow> error + zmatrix \<times> nat list"
where
  "chain_zmatrix nkeys to_Z hybs gra chain_keys =
     (let sym_dct = atom_symbols gra in
      bind (for_each (chain_zmatrix_body nkeys to_Z hybs gra sym_dct) chain_keys
              chain_zmatrix_init)
      (\<lambda>st. bind (getitems (v_row_dct st) chain_keys)
      (\<lambda>chain_rows. Inr (v_zma st, chain_rows))))"

text \<open>
  The body of the loop of \<open>ring_zmatrix\<close>: the three values of the row are set before
  the loop and never change.
\<close>

definition ring_zmatrix_body ::
  "(atom_key \<rightharpoonup> string) \<Rightarrow> locals \<Rightarrow> atom_key \<Rightarrow> error + locals"
where
  "ring_zmatrix_body sym_dct st0 key4 =
     (let st1 = st0\<lparr>v_row_dct := (v_row_dct st0)(key4 \<mapsto> count (v_zma st0))\<rparr> in
      bind (case v_key3 st1 of
              None \<Rightarrow> Inr st1
            | Some key3 \<Rightarrow>
                bind (getitem (v_row_dct st1) key3) (\<lambda>row3. Inr (st1\<lparr>v_row3 := Some row3\<rparr>)))
      (\<lambda>st2. bind (case v_key2 st2 of
              None \<Rightarrow> Inr st2
            | Some key2 \<Rightarrow>
                bind (getitem (v_row_dct st2) key2) (\<lambda>row2. Inr (st2\<lparr>v_row2 := Some row2\<rparr>)))
      (\<lambda>st3. bind (case v_key1 st3 of
              None \<Rightarrow> Inr st3
            | Some key1 \<Rightarrow>
                bind (getitem (v_row_dct st3) key1) (\<lambda>row1. Inr (st3\<lparr>v_row1 := Some row1\<rparr>)))
      (\<lambda>st4. bind (getitem sym_dct key4)
      (\<lambda>sym4. Inr (st4\<lparr>v_zma := add_atom (v_zma st4) sym4
                                  [v_row3 st4, v_row2 st4, v_row1 st4]
                                  [v_r34 st4, v_a234 st4, v_d1234 st4],
                     v_key1 := v_key2 st4, v_key2 := v_key3 st4, v_key3 := Some key4\<rparr>))))))"

definition ring_zmatrix_init :: "real \<Rightarrow> real \<Rightarrow> locals" where
  "ring_zmatrix_init bond_dist bond_ang =
     \<lparr>v_row_dct = Map.empty, v_zma = [],
      v_key3 = None, v_row3 = None, v_r34 = Some bond_dist,
      v_key2 = None, v_row2 = None, v_a234 = Some bond_ang,
      v_key1 = None, v_row1 = None, v_d1234 = Some 0\<rparr>"

text \<open>
  \<open>ring_zmatrix(gra, ring_keys, bond_dist=XY_DIST, end_dist=XY_DIST)\<close>: an optional
  argument is \<open>None\<close> when the caller leaves it out and takes its default then.
\<close>

definition ring_zmatrix ::
  "root_finder \<Rightarrow> graph \<Rightarrow> atom_key list \<Rightarrow> real option \<Rightarrow> real option
     \<Rightarrow> error + zmatrix \<times> nat list"
where
  "ring_zmatrix root_scalar gra ring_keys bond_dist_arg end_dist_arg =
     (let bond_dist = (case bond_dist_arg of None \<Rightarrow> XY_DIST | Some b \<Rightarrow> b);
          end_dist = (case end_dist_arg of None \<Rightarrow> XY_DIST | Some e \<Rightarrow> e);
          num = int (length ring_keys)
      in bind (ring_arc_bond_angle root_scalar num end_dist bond_dist)
         (\<lambda>bond_ang.
            let sym_dct = atom_symbols gra in
            bind (for_each (ring_zmatrix_body sym_dct) ring_keys
                    (ring_zmatrix_init bond_dist bond_ang))
            (\<lambda>st. bind (getitems (v_row_dct st) ring_keys)
            (\<lambda>ring_rows. Inr (v_zma st, ring_rows)))))"

text \<open>
  \<open>ring_system_zmatrix(gra, ring_system_decomp_keys)\<close>. The collaborators of
  \<open>automol.zmat\<close> that measure and merge z-matrices are arguments:
  \<^item> \<open>distance zma row1 row2\<close> is \<open>automol.zmat.distance\<close> in angstrom;
  \<^item> \<open>central_angle zma row1 row2 row3\<close> is \<open>automol.zmat.central_angle\<close> in degrees;
  \<^item> \<open>join_replace_one zma1 zma2 row row_mat val_mat\<close> is
    \<open>automol.zmat.join_replace_one\<close>;
  \<^item> \<open>geometry zma\<close> is \<open>automol.zmat.geometry\<close>.

  The Python function has no \<open>return\<close> statement: it prints the graph, the keys, the
  end distance, the merged z-matrix and its geometry, and returns \<open>None\<close>. The model
  returns the merged z-matrix that is printed last, or the exception raised on the way;
  what is printed is not modelled otherwise.
\<close>

definition ring_system_zmatrix ::
  "root_finder \<Rightarrow> (zmatrix \<Rightarrow> nat \<Rightarrow> nat \<Rightarrow> error + real)
     \<Rightarrow> (zmatrix \<Rightarrow> nat \<Rightarrow> nat \<Rightarrow> nat \<Rightarrow> error + real)
     \<Rightarrow> (zmatrix \<Rightarrow> zmatrix \<Rightarrow> nat \<Rightarrow> nat list list \<Rightarrow> real list list \<Rightarrow> error + zmatrix)
     \<Rightarrow> (zmatrix \<Rightarrow> error + 'geo)
     \<Rightarrow> graph \<Rightarrow> atom_key list list \<Rightarrow> error + zmatrix"
where
  "ring_system_zmatrix root_scalar distance central_angle join_replace_one geometry gra
       ring_system_decomp_keys =
     (case ring_system_decomp_keys of
        [] \<Rightarrow> Inl StopIteration
      | ring_keys # ring_sys_iter \<Rightarrow>
          bind (ring_zmatrix root_scalar gra ring_keys None None)
          (\<lambda>(zma, ring_rows).
             let row_dct = dict_zip ring_keys ring_rows in
             (case ring_sys_iter of
                [] \<Rightarrow> Inl StopIteration
              | arc_keys # _ \<Rightarrow>
                  bind (seq_getitem arc_keys 0)
                  (\<lambda>end_key0. bind (seq_getitem arc_keys (- 1))
                  (\<lambda>end_key1. bind (getitems row_dct [end_key0, end_key1])
                  (\<lambda>end_rows. bind (distance zma (end_rows ! 0) (end_rows ! 1))
                  (\<lambda>end_dist. bind (ring_zmatrix root_scalar gra arc_keys None (Some end_dist))
                  (\<lambda>(arc_zma, arc_rows). bind (seq_getitem arc_rows 1)
                  (\<lambda>arc_row1. bind (seq_getitem arc_rows 0)
                  (\<lambda>arc_row0. bind (seq_getitem arc_rows (- 1))
                  (\<lambda>arc_rowl. bind (central_angle arc_zma arc_row1 arc_row0 arc_rowl)
                  (\<lambda>ang1.
                     let dih1 = 90; dih2 = 0;
                         key3 = end_key0; key2 = end_key1
                     in bind (index ring_keys key3)
                        (\<lambda>row3. bind (index ring_keys key2)
                        (\<lambda>row2.
                           let row1 = (if row2 > 0 then row2 - 1 else row2 + 1);
                               row_mat = [[row2, row1], [row2]];
                               val_mat = [[ang1, dih1], [dih2]]
                           in bind (join_replace_one zma arc_zma row3 row_mat val_mat)
                              (\<lambda>zma'. bind (geometry zma')
                              (\<lambda>geo. Inr zma'))))))))))))))))"

subsection \<open>Predicates of the statements\<close>

text \<open>
  The key that was placed \<open>d + 1\<close> steps before the next one, after the keys \<open>xs\<close> were
  placed, and the row \<open>d + 1\<close> rows before row \<open>i\<close>; \<open>None\<close> when there is none.
\<close>

definition prev_key :: "atom_key list \<Rightarrow> nat \<Rightarrow> atom_key option" where
  "prev_key xs d = (if d < length xs then Some (xs ! (length xs - 1 - d)) else None)"


text \<open>
  A chain the chain builder can walk: every key has a symbol, the heuristic bond
  distance succeeds on every two consecutive keys, and the heuristic bond angle on every
  three.
\<close>

definition chain_ok ::
  "neighbor_keys \<Rightarrow> periodic_table \<Rightarrow> hybridizations \<Rightarrow> graph \<Rightarrow> atom_key list \<Rightarrow> bool"
where
  "chain_ok nkeys to_Z hybs gra keys =
     ((\<forall>i. i < length keys \<longrightarrow> atom_symbols gra (keys ! i) \<noteq> None)
      \<and> (\<forall>i. Suc i < length keys \<longrightarrow>
             \<not> isl (heuristic_bond_distance nkeys to_Z gra (keys ! i) (keys ! Suc i) True))
      \<and> (\<forall>i. Suc (Suc i) < length keys \<longrightarrow>
             \<not> isl (heuristic_bond_angle nkeys hybs gra
                      (keys ! i) (keys ! Suc i) (keys ! Suc (Suc i)) True)))"


text \<open>
  The state of the loop of \<open>ring_zmatrix\<close>: the three previous keys have their rows
  in the row dictionary.
\<close>

definition ring_inv :: "locals \<Rightarrow> bool" where
  "ring_inv st =
     ((\<forall>k. v_key3 st = Some k \<longrightarrow> k \<in> dom (v_row_dct st))
      \<and> (\<forall>k. v_key2 st = Some k \<longrightarrow> k \<in> dom (v_row_dct st))
      \<and> (\<forall>k. v_key1 st = Some k \<longrightarrow> k \<in> dom (v_row_dct st)))"


subsection \<open>Example data\<close>

text \<open>
  A four-carbon chain 0-1-2-3 with one hydrogen, 4, on carbon 0, and collaborators that
  answer for it.
\<close>

definition example_gra :: graph where
  "example_gra =
     ([0 \<mapsto> (''C'', 2, None), 1 \<mapsto> (''C'', 2, None), 2 \<mapsto> (''C'', 2, None),
       3 \<mapsto> (''C'', 3, None), 4 \<mapsto> (''H'', 0, None)],
      [{0, 1} \<mapsto> (1, None), {1, 2} \<mapsto> (1, None), {2, 3} \<mapsto> (1, None),
       {0, 4} \<mapsto> (1, None)])"

definition example_nkeys :: neighbor_keys where
  "example_nkeys gra = [0 \<mapsto> {1, 4}, 1 \<mapsto> {0, 2}, 2 \<mapsto> {1, 3}, 3 \<mapsto> {2}, 4 \<mapsto> {0}]"

definition example_to_Z :: periodic_table where
  "example_to_Z s =
     (if s = ''H'' then Inr 1
      else if s = ''C'' then Inr 6
      else Inl (LibraryError ''NotAnElementError''))"

definition example_hybs :: hybridizations where
  "example_hybs gra = [0 \<mapsto> 3, 1 \<mapsto> 3, 2 \<mapsto> 2, 3 \<mapsto> 1, 4 \<mapsto> 0]"

text \<open>
  A ring of six carbons, and the z-matrix \<open>ring_zmatrix\<close> builds for it with bond
  distance 1.5 and bond angle 120.
\<close>

definition example_ring_gra :: graph where
  "example_ring_gra =
     ([0 \<mapsto> (''C'', 2, None), 1 \<mapsto> (''C'', 2, None), 2 \<mapsto> (''C'', 2, None),
       3 \<mapsto> (''C'', 2, None), 4 \<mapsto> (''C'', 2, None), 5 \<mapsto> (''C'', 2, None)],
      [{0, 1} \<mapsto> (1, None), {1, 2} \<mapsto> (1, None), {2, 3} \<mapsto> (1, None),
       {3, 4} \<mapsto> (1, None), {4, 5} \<mapsto> (1, None), {5, 0} \<mapsto> (1, None)])"

definition example_ring_row :: "nat option list \<Rightarrow> real \<Rightarrow> real \<Rightarrow> zrow" where
  "example_ring_row krow bond_dist bond_ang =
     \<lparr>symb = ''C'', key_row = krow, val_row = [Some bond_dist, Some bond_ang, Some 0]\<rparr>"

definition example_ring_zma :: zmatrix where
  "example_ring_zma =
     [example_ring_row [None, None, None] 1.5 120,
      example_ring_row [Some 0, None, None] 1.5 120,
      example_ring_row [Some 1, Some 0, None] 1.5 120,
      example_ring_row [Some 2, Some 1, Some 0] 1.5 120,
      example_ring_row [Some 3, Some 2, Some 1] 1.5 120,
      example_ring_row [Some 4, Some 3, Some 2] 1.5 120]"

section \<open>Properties\<close>

subsection \<open>Helper lemmas\<close>

lemma bind_Inr [simp]: "bind (Inr x) f = f x"
  by (simp add: bind_def)

lemma bind_Inl [simp]: "bind (Inl e) f = Inl e"
  by (simp add: bind_def)

lemma getitem_Some [simp]: "d k = Some v \<Longrightarrow> getitem d k = Inr v"
  by (simp add: getitem_def)

lemma getitem_None [simp]: "d k = None \<Longrightarrow> getitem d k = Inl KeyError"
  by (simp add: getitem_def)

lemma assert_True [simp]: "c \<Longrightarrow> assert c = Inr ()"
  by (simp add: assert_def)

lemma assert_False [simp]: "\<not> c \<Longrightarrow> assert c = Inl AssertionError"
  by (simp add: assert_def)

lemma lower_end_finder_respects_bracket: "respects_bracket lower_end_finder"
  by (auto simp: respects_bracket_def lower_end_finder_def split: if_splits)

subsection \<open>Double rounding\<close>

lemma binade_iff:
  assumes "x \<noteq> 0"
  shows "binade x = k \<longleftrightarrow> 2 powi k \<le> \<bar>x\<bar> \<and> \<bar>x\<bar> < 2 powi (k + 1)"
proof -
  have "0 < \<bar>x\<bar>" using assms by simp
  then have "\<lfloor>log 2 \<bar>x\<bar>\<rfloor> = k \<longleftrightarrow> 2 powr real_of_int k \<le> \<bar>x\<bar> \<and> \<bar>x\<bar> < 2 powr (real_of_int k + 1)"
    using floor_log_eq_powr_iff [of "\<bar>x\<bar>" 2 k] by simp
  moreover have "2 powr real_of_int k = (2 :: real) powi k"
    by (simp add: powr_real_of_int')
  moreover have "2 powr (real_of_int k + 1) = (2 :: real) powi (k + 1)"
    using powr_real_of_int' [of 2 "k + 1"] by simp
  ultimately show ?thesis by (simp add: binade_def)
qed

lemma round_double_zero [simp]: "round_double 0 = 0"
  by (simp add: round_double_def)

lemma round_double_eval:
  assumes "2 powi k \<le> \<bar>x\<bar>" and "\<bar>x\<bar> < 2 powi (k + 1)" and "- 1022 \<le> k"
  shows "round_double x = 2 powi (k - 52) * of_int (round_half_even (x / 2 powi (k - 52)))"
proof -
  have "0 < (2 :: real) powi k" by simp
  with assms(1) have "0 < \<bar>x\<bar>" by linarith
  then have nz: "x \<noteq> 0" by simp
  then have "binade x = k" using assms by (simp add: binade_iff)
  then have "ulp x = 2 powi (k - 52)"
    using assms(3) by (simp add: ulp_def max_def)
  then show ?thesis using nz by (simp add: round_double_def)
qed

lemma round_double_1: "round_double 1 = 1"
  using round_double_eval [of 0 1] by (simp add: round_half_even_def)

lemma round_double_3_2: "round_double (3 / 2) = 3 / 2"
  using round_double_eval [of 0 "3 / 2"] by (simp add: round_half_even_def)

lemma round_double_3: "round_double 3 = 3"
  using round_double_eval [of 1 3] by (simp add: round_half_even_def)

lemma round_double_15_2: "round_double (15 / 2) = 15 / 2"
  using round_double_eval [of 2 "15 / 2"] by (simp add: round_half_even_def)

lemma round_double_11_10: "round_double (11 / 10) = 4953959590107546 / 2 ^ 52"
  using round_double_eval [of 0 "11 / 10"] by (simp add: round_half_even_def)













subsection \<open>Heuristic parameter model\<close>

text \<open>
  C9. For a bonded pair of atoms whose symbols name elements, the heuristic bond
  distance is the X-H constant when at least one of the two atomic numbers is 1 and the
  heavy-atom constant otherwise.
\<close>

theorem heuristic_bond_distance_constants:
  assumes "nkeys gra key2 = Some ks" and "key1 \<in> ks"
    and "atom_symbols gra key1 = Some sym1" and "atom_symbols gra key2 = Some sym2"
    and "to_Z sym1 = Inr z1" and "to_Z sym2 = Inr z2"
  shows "heuristic_bond_distance nkeys to_Z gra key1 key2 True
           = Inr (if z1 = 1 \<or> z2 = 1 then XH_DIST else XY_DIST)"
  using assms by (simp add: heuristic_bond_distance_def)

theorem heuristic_bond_distance_constants_witness:
  "heuristic_bond_distance example_nkeys example_to_Z example_gra 4 0 True = Inr 1.1
     \<and> heuristic_bond_distance example_nkeys example_to_Z example_gra 0 1 True = Inr 1.5"
  using
    heuristic_bond_distance_constants
      [of example_nkeys example_gra 0 "{1, 4}" 4 "''H''" "''C''" example_to_Z 1 6]
    heuristic_bond_distance_constants
      [of example_nkeys example_gra 1 "{0, 2}" 0 "''C''" "''C''" example_to_Z 6 6]
  by (simp add: example_nkeys_def example_gra_def example_to_Z_def atom_symbols_def
      atoms_def XH_DIST_def XY_DIST_def)

text \<open>
  C8. For a bonded triple whose centre has a hybridization, the heuristic bond angle is
  109.4712 degrees for hybridization 3, 120 degrees for 2, 180 degrees for 1, and the
  call fails (the assertion \<open>hyb2 == 1\<close>) for any other hybridization.
\<close>

theorem heuristic_bond_angle_by_hybridization:
  assumes "nkeys gra key2 = Some ks" and "{key1, key3} \<subseteq> ks"
    and "hybs gra key2 = Some hyb2"
  shows "heuristic_bond_angle nkeys hybs gra key1 key2 key3 True
           = (if hyb2 = 3 then Inr 109.4712
              else if hyb2 = 2 then Inr 120
              else if hyb2 = 1 then Inr 180
              else Inl AssertionError)"
  using assms
  by (simp add: heuristic_bond_angle_def TET_ANG_def TRI_ANG_def LIN_ANG_def)

theorem heuristic_bond_angle_by_hybridization_witness:
  "heuristic_bond_angle example_nkeys example_hybs example_gra 0 1 2 True = Inr 109.4712
     \<and> heuristic_bond_angle example_nkeys example_hybs example_gra 1 2 3 True = Inr 120
     \<and> heuristic_bond_angle example_nkeys example_hybs example_gra 2 3 2 True = Inr 180
     \<and> heuristic_bond_angle example_nkeys example_hybs example_gra 0 4 0 True
         = Inl AssertionError"
  using
    heuristic_bond_angle_by_hybridization
      [of example_nkeys example_gra 1 "{0, 2}" 0 2 example_hybs 3]
    heuristic_bond_angle_by_hybridization
      [of example_nkeys example_gra 2 "{1, 3}" 1 3 example_hybs 2]
    heuristic_bond_angle_by_hybridization
      [of example_nkeys example_gra 3 "{2}" 2 2 example_hybs 1]
    heuristic_bond_angle_by_hybridization
      [of example_nkeys example_gra 4 "{0}" 0 0 example_hybs 0]
  by (simp add: example_nkeys_def example_hybs_def)

subsection \<open>Ring-closure angle\<close>

text \<open>
  A root finder that respects its bracket never yields 180 degrees: the branch that
  calls it returns \<open>180 - theta/(num-1)\<close> with \<open>theta\<close> at least \<open>0.01\<close> radian.
\<close>

lemma solver_branch_not_straight:
  assumes rb: "respects_bracket root_scalar"
    and guard: "\<not> round_double (real_of_int (num - 1) * bond_dist) < end_dist"
  shows "ring_arc_bond_angle root_scalar num end_dist bond_dist \<noteq> Inr 180"
proof
  assume eq: "ring_arc_bond_angle root_scalar num end_dist bond_dist = Inr 180"
  from eq guard obtain res where
    res: "root_scalar (ring_arc_bond_angle_f num end_dist bond_dist) 0.01 (2 * pi) = Inr res"
    and nz: "num - 1 \<noteq> 0"
    and ang: "180 - root res * radian_to_degree / real_of_int (num - 1) = (180 :: real)"
    by (auto simp: ring_arc_bond_angle_def bind_def assert_def Let_def
        split: sum.splits if_splits)
  from rb res have "0.01 \<le> root res"
    unfolding respects_bracket_def by blast
  moreover from ang nz have "root res = 0"
    by (simp add: radian_to_degree_def)
  ultimately show False by simp
qed

text \<open>
  C2 (as the code has it). Whenever the end distance is strictly longer than the
  product \<open>(num - 1) * bond_dist\<close> as the code computes it, rounded to the nearest
  double, the angle is exactly 180 degrees, whatever the root finder.
\<close>

theorem ring_arc_bond_angle_straight:
  assumes "\<bar>num - 1\<bar> \<le> 2 ^ 53"
    and "round_double (real_of_int (num - 1) * bond_dist) < end_dist"
  shows "ring_arc_bond_angle root_scalar num end_dist bond_dist = Inr 180"
  using assms by (simp add: ring_arc_bond_angle_def)

theorem ring_arc_bond_angle_straight_witness:
  "\<bar>3 - 1\<bar> \<le> (2 :: int) ^ 53
     \<and> round_double (real_of_int (3 - 1) * 1.5) < (4 :: real)
     \<and> ring_arc_bond_angle lower_end_finder 3 4 1.5 = Inr 180"
  using ring_arc_bond_angle_straight [of 3 "1.5" 4 lower_end_finder]
  by (simp add: round_double_3)

text \<open>
  At the boundary \<open>end_dist = (num - 1) * bond_dist\<close> the test \<open>end_dist > ...\<close> fails
  and the root finder is called. For two atoms with both distances 1.5 the residual is
  zero at the lower end of the bracket; a root finder that returns that end gives
  \<open>180 - 1.8 / pi\<close> degrees, and no root finder that respects its bracket gives 180.
\<close>

theorem ring_arc_bond_angle_boundary_counterexample:
  "ring_arc_bond_angle_f 2 1.5 1.5 0.01 = Inr 0
     \<and> ring_arc_bond_angle lower_end_finder 2 1.5 1.5 = Inr (180 - 1.8 / pi)
     \<and> \<not> (\<exists>root_scalar. respects_bracket root_scalar
            \<and> ring_arc_bond_angle root_scalar 2 1.5 1.5 = Inr 180)"
proof (intro conjI)
  have "sin (1 / 200 :: real) > 0"
    using pi_ge_two by (intro sin_gt_zero) auto
  then show "ring_arc_bond_angle_f 2 1.5 1.5 0.01 = Inr 0"
    by (simp add: ring_arc_bond_angle_f_def round_double_1)
next
  show "ring_arc_bond_angle lower_end_finder 2 1.5 1.5 = Inr (180 - 1.8 / pi)"
    using pi_ge_two
    by (simp add: ring_arc_bond_angle_def lower_end_finder_def radian_to_degree_def
        round_double_3_2)
next
  show "\<not> (\<exists>root_scalar. respects_bracket root_scalar
            \<and> ring_arc_bond_angle root_scalar 2 1.5 1.5 = Inr 180)"
  proof
    assume "\<exists>root_scalar. respects_bracket root_scalar
              \<and> ring_arc_bond_angle root_scalar 2 1.5 1.5 = Inr 180"
    then obtain rs where rb: "respects_bracket rs"
      and eq: "ring_arc_bond_angle rs 2 1.5 1.5 = Inr 180"
      by blast
    from eq obtain res where
      res: "rs (ring_arc_bond_angle_f 2 1.5 1.5) 0.01 (2 * pi) = Inr res"
      and ang: "root res * radian_to_degree = 0"
      by (auto simp: ring_arc_bond_angle_def bind_def assert_def round_double_3_2
          split: sum.splits if_splits)
    from rb res have "0.01 \<le> root res"
      unfolding respects_bracket_def by blast
    moreover from ang have "root res = 0"
      by (simp add: radian_to_degree_def)
    ultimately show False by simp
  qed
qed


text \<open>
  C3 (as the code has it). For one atom no precondition is checked: the guard
  \<open>end_dist > 0 * bond_dist\<close> returns 180 degrees for every positive end distance;
  for any other end distance the call raises (the root finder's exception, the failed
  assertion, or ZeroDivisionError of \<open>theta/(num-1)\<close>).
\<close>

theorem ring_arc_bond_angle_one_atom:
  "(if 0 < end_dist
    then ring_arc_bond_angle root_scalar 1 end_dist bond_dist = Inr 180
    else isl (ring_arc_bond_angle root_scalar 1 end_dist bond_dist))"
  by (simp add: ring_arc_bond_angle_def bind_def assert_def split: sum.splits)

theorem ring_arc_bond_angle_one_atom_counterexample:
  "\<forall>root_scalar. ring_arc_bond_angle root_scalar 1 1.5 1.5 = Inr 180"
  by (simp add: ring_arc_bond_angle_def)

lemma equilateral_residual_root:
  assumes zero: "ring_arc_bond_angle_f 3 1.5 1.5 theta = Inr 0"
    and lo: "0.01 \<le> theta" and hi: "theta < 2 * pi"
  shows "theta = 4 * pi / 3"
proof -
  define s where "s = sin (theta / 4)"
  define c where "c = cos (theta / 4)"
  define t where "t = sin (theta / 2)"
  have noclamp: "\<not> \<bar>theta\<bar> < 1 / 1000"
    using lo by simp
  have "ring_arc_bond_angle_f 3 1.5 1.5 theta = Inr (s / t - 1)"
    using noclamp
    by (simp add: ring_arc_bond_angle_f_def Let_def s_def t_def round_double_1)
  with zero have quot: "s / t = 1"
    by simp
  have t_pos: "0 < t"
    unfolding t_def using lo hi by (intro sin_gt_zero) auto
  have s_pos: "0 < s"
    unfolding s_def using lo hi by (intro sin_gt_zero) auto
  have st: "s = t"
    using quot t_pos by (simp add: field_simps)
  have dbl: "t = 2 * s * c"
    unfolding t_def s_def c_def using sin_double [of "theta / 4"] by simp
  have "s * 1 = s * (2 * c)"
    using st dbl by (simp add: mult.assoc mult.left_commute)
  then have "1 = 2 * c"
    using s_pos by (simp only: mult_cancel_left) simp
  then have eq: "cos (theta / 4) = cos (pi / 3)"
    unfolding c_def by (simp add: cos_60)
  have x0: "0 \<le> theta / 4" and x1: "theta / 4 \<le> pi"
    using lo hi by auto
  have y0: "0 \<le> pi / 3" and y1: "pi / 3 \<le> pi"
    using pi_ge_two by auto
  have "theta / 4 = pi / 3"
    by (rule cos_inj_pi [OF x0 x1 y0 y1 eq])
  then show ?thesis by simp
qed

lemma equilateral_residual_zero: "ring_arc_bond_angle_f 3 1.5 1.5 (4 * pi / 3) = Inr 0"
proof -
  have a: "sin (4 * pi / 3 / 2) = sin (pi / 3)"
  proof -
    have "4 * pi / 3 / 2 = pi - pi / 3" by simp
    then show ?thesis by (simp only: sin_pi_minus)
  qed
  have b: "4 * pi / 3 / real_of_int (2 * (3 - 1)) = pi / 3" by simp
  have c: "\<not> \<bar>4 * pi / 3\<bar> < 0.001"
    using pi_ge_two by simp
  have d: "sin (pi / 3) \<noteq> 0" by (simp add: sin_60)
  have "ring_arc_bond_angle_f 3 1.5 1.5 (4 * pi / 3)
          = Inr (sin (4 * pi / 3 / real_of_int (2 * (3 - 1))) / sin (4 * pi / 3 / 2) - 1.5 / 1.5)"
    using c by (simp add: ring_arc_bond_angle_f_def Let_def round_double_1)
  also have "\<dots> = Inr 0"
    unfolding a b using d by simp
  finally show ?thesis .
qed


text \<open>
  C4. Three atoms with bond distance 1.5 and end distance 1.5 (an equilateral triangle):
  when the root finder converges to within \<open>10^-6\<close> of a zero of the residual in the
  bracket, the angle returned is 60 degrees to within \<open>10^-4\<close>. The only zero of the
  residual in the bracket is \<open>4 * pi / 3\<close>.
\<close>

theorem ring_arc_bond_angle_equilateral:
  assumes call: "root_scalar (ring_arc_bond_angle_f 3 1.5 1.5) 0.01 (2 * pi) = Inr res"
    and conv: "converged res"
    and zero: "ring_arc_bond_angle_f 3 1.5 1.5 theta = Inr 0"
    and lo: "0.01 \<le> theta" and hi: "theta < 2 * pi"
    and tol: "\<bar>root res - theta\<bar> \<le> 1 / 10 ^ 6"
  shows "\<exists>ang. ring_arc_bond_angle root_scalar 3 1.5 1.5 = Inr ang
           \<and> \<bar>ang - 60\<bar> \<le> 1 / 10 ^ 4"
proof -
  have theta: "theta = 4 * pi / 3"
    using zero lo hi by (rule equilateral_residual_root)
  define r where "r = root res"
  define ang where "ang = 180 - r * radian_to_degree / 2"
  have val: "ring_arc_bond_angle root_scalar 3 1.5 1.5 = Inr ang"
    using call conv by (simp add: ring_arc_bond_angle_def ang_def r_def round_double_3)
  have "ang - 60 = (4 * pi / 3 - r) * (90 / pi)"
    using pi_gt_zero by (simp add: ang_def radian_to_degree_def field_simps)
  then have "\<bar>ang - 60\<bar> = \<bar>4 * pi / 3 - r\<bar> * \<bar>90 / pi\<bar>"
    by (simp only: abs_mult)
  also have "\<bar>90 / pi\<bar> = 90 / pi"
    using pi_gt_zero by simp
  also have "\<bar>4 * pi / 3 - r\<bar> = \<bar>r - theta\<bar>"
    unfolding theta by (rule abs_minus_commute)
  finally have "\<bar>ang - 60\<bar> = \<bar>r - theta\<bar> * (90 / pi)" .
  also have "\<dots> \<le> (1 / 10 ^ 6) * (90 / pi)"
    using tol pi_gt_zero unfolding r_def by (intro mult_right_mono) auto
  also have "\<dots> \<le> (1 / 10 ^ 6) * 45"
  proof -
    have "90 / pi \<le> 45"
      using pi_ge_two pi_gt_zero by (simp add: field_simps)
    then show ?thesis by simp
  qed
  also have "\<dots> \<le> 1 / 10 ^ 4" by simp
  finally show ?thesis using val by blast
qed

theorem ring_arc_bond_angle_equilateral_witness:
  "\<exists>ang. ring_arc_bond_angle (exact_root_finder (4 * pi / 3)) 3 1.5 1.5 = Inr ang
           \<and> \<bar>ang - 60\<bar> \<le> 1 / 10 ^ 4"
proof -
  have lo: "0.01 \<le> 4 * pi / 3" using pi_ge_two by simp
  have hi: "4 * pi / 3 < 2 * pi" using pi_gt_zero by simp
  have call: "exact_root_finder (4 * pi / 3) (ring_arc_bond_angle_f 3 1.5 1.5) 0.01 (2 * pi)
                = Inr \<lparr>root = 4 * pi / 3, converged = True\<rparr>"
    by (simp only: exact_root_finder_def)
  have conv: "converged \<lparr>root = 4 * pi / 3, converged = True\<rparr>" by simp
  have tol: "\<bar>root \<lparr>root = 4 * pi / 3, converged = True\<rparr> - 4 * pi / 3\<bar> \<le> 1 / 10 ^ 6"
    by simp
  show ?thesis
    by (rule ring_arc_bond_angle_equilateral
        [of "exact_root_finder (4 * pi / 3)" "\<lparr>root = 4 * pi / 3, converged = True\<rparr>"
            "4 * pi / 3", OF call conv equilateral_residual_zero lo hi tol])
qed






subsection \<open>The chain builder\<close>


lemma prev_key_snoc_0 [simp]: "prev_key (xs @ [x]) 0 = Some x"
  by (simp add: prev_key_def)

lemma prev_key_snoc_Suc [simp]: "prev_key (xs @ [x]) (Suc d) = prev_key xs d"
  by (auto simp: prev_key_def nth_append)









text \<open>
  A chain of bonded atoms whose symbols name elements and whose inner atoms have a
  hybridization 1, 2 or 3 is one the builder can walk.
\<close>

lemma chain_ok_bonded:
  assumes syms: "\<And>k. k \<in> set keys \<Longrightarrow> \<exists>s z. atom_symbols gra k = Some s \<and> to_Z s = Inr z"
    and bonded: "\<And>i. Suc i < length keys \<Longrightarrow>
                   \<exists>ks. nkeys gra (keys ! Suc i) = Some ks \<and> keys ! i \<in> ks"
    and centre: "\<And>i. Suc (Suc i) < length keys \<Longrightarrow>
                   \<exists>ks h. nkeys gra (keys ! Suc i) = Some ks
                     \<and> {keys ! i, keys ! Suc (Suc i)} \<subseteq> ks
                     \<and> hybs gra (keys ! Suc i) = Some h \<and> h \<in> {1, 2, 3}"
  shows "chain_ok nkeys to_Z hybs gra keys"
  unfolding chain_ok_def
proof (intro conjI allI impI)
  fix i assume "i < length keys"
  then have "keys ! i \<in> set keys" by simp
  then show "atom_symbols gra (keys ! i) \<noteq> None"
    using syms by fastforce
next
  fix i assume i: "Suc i < length keys"
  then have "keys ! i \<in> set keys" "keys ! Suc i \<in> set keys" by simp_all
  then obtain s1 z1 s2 z2 where
    "atom_symbols gra (keys ! i) = Some s1" "to_Z s1 = Inr z1"
    "atom_symbols gra (keys ! Suc i) = Some s2" "to_Z s2 = Inr z2"
    using syms by metis
  moreover obtain ks where "nkeys gra (keys ! Suc i) = Some ks" "keys ! i \<in> ks"
    using bonded [OF i] by blast
  ultimately show
    "\<not> isl (heuristic_bond_distance nkeys to_Z gra (keys ! i) (keys ! Suc i) True)"
    by (simp add: heuristic_bond_distance_def)
next
  fix i assume i: "Suc (Suc i) < length keys"
  from centre [OF i] obtain ks h where
    "nkeys gra (keys ! Suc i) = Some ks" "{keys ! i, keys ! Suc (Suc i)} \<subseteq> ks"
    "hybs gra (keys ! Suc i) = Some h" "h \<in> {1, 2, 3}"
    by blast
  then show "\<not> isl (heuristic_bond_angle nkeys hybs gra
                     (keys ! i) (keys ! Suc i) (keys ! Suc (Suc i)) True)"
    by (auto simp: heuristic_bond_angle_def)
qed



lemma example_chain_zmatrix:
  "chain_zmatrix example_nkeys example_to_Z example_hybs example_gra [0, 1, 2, 3]
     = Inr ([\<lparr>symb = ''C'', key_row = [None, None, None], val_row = [None, None, None]\<rparr>,
             \<lparr>symb = ''C'', key_row = [Some 0, None, None],
               val_row = [Some 1.5, None, None]\<rparr>,
             \<lparr>symb = ''C'', key_row = [Some 1, Some 0, None],
               val_row = [Some 1.5, Some 109.4712, None]\<rparr>,
             \<lparr>symb = ''C'', key_row = [Some 2, Some 1, Some 0],
               val_row = [Some 1.5, Some 120, Some 180]\<rparr>],
            [0, 1, 2, 3])"
  by (simp add: chain_zmatrix_def chain_zmatrix_body_def chain_zmatrix_init_def Let_def
      count_def add_atom_def heuristic_bond_distance_def heuristic_bond_angle_def
      example_nkeys_def example_to_Z_def example_hybs_def example_gra_def atom_symbols_def
      atoms_def XY_DIST_def XH_DIST_def TET_ANG_def TRI_ANG_def LIN_ANG_def TRA_DIH_def)


subsection \<open>The ring builder\<close>

lemma ring_body_vals:
  assumes "ring_zmatrix_body sym_dct st k = Inr st'"
  shows "v_r34 st' = v_r34 st \<and> v_a234 st' = v_a234 st \<and> v_d1234 st' = v_d1234 st
         \<and> (\<exists>row. v_zma st' = v_zma st @ [row]
                \<and> val_row row = [v_r34 st, v_a234 st, v_d1234 st])"
  using assms
  by (auto simp: ring_zmatrix_body_def Let_def bind_def add_atom_def getitem_def
      split: option.splits sum.splits)

lemma ring_loop_vals:
  assumes "for_each (ring_zmatrix_body sym_dct) ks st = Inr st'"
    and "\<And>row. row \<in> set (v_zma st) \<Longrightarrow> val_row row = [v_r34 st, v_a234 st, v_d1234 st]"
  shows "length (v_zma st') = length (v_zma st) + length ks
         \<and> (\<forall>row \<in> set (v_zma st'). val_row row = [v_r34 st, v_a234 st, v_d1234 st])"
  using assms
proof (induction ks arbitrary: st)
  case Nil
  then show ?case by simp
next
  case (Cons k ks)
  from Cons.prems(1) obtain st1 where
    step: "ring_zmatrix_body sym_dct st k = Inr st1"
    and rest: "for_each (ring_zmatrix_body sym_dct) ks st1 = Inr st'"
    by (auto simp: bind_def split: sum.splits)
  from ring_body_vals [OF step] obtain row where
    same: "v_r34 st1 = v_r34 st" "v_a234 st1 = v_a234 st" "v_d1234 st1 = v_d1234 st"
    and zm: "v_zma st1 = v_zma st @ [row]"
    and row: "val_row row = [v_r34 st, v_a234 st, v_d1234 st]"
    by blast
  have "\<And>r. r \<in> set (v_zma st1) \<Longrightarrow> val_row r = [v_r34 st1, v_a234 st1, v_d1234 st1]"
    using Cons.prems(2) row by (auto simp: zm same)
  from Cons.IH [OF rest this] show ?case
    by (simp add: zm same)
qed

lemma ring_body_returns:
  assumes inv: "ring_inv st" and sym: "sym_dct k = Some s"
  shows "\<exists>st'. ring_zmatrix_body sym_dct st k = Inr st' \<and> ring_inv st'
           \<and> dom (v_row_dct st') = insert k (dom (v_row_dct st))"
  using inv sym
  by (auto simp: ring_zmatrix_body_def Let_def ring_inv_def getitem_def bind_def
      split: option.splits)

lemma ring_loop_returns:
  assumes "ring_inv st" and "\<And>k. k \<in> set ks \<Longrightarrow> sym_dct k \<noteq> None"
  shows "\<exists>st'. for_each (ring_zmatrix_body sym_dct) ks st = Inr st'
           \<and> dom (v_row_dct st') = dom (v_row_dct st) \<union> set ks"
  using assms
proof (induction ks arbitrary: st)
  case Nil
  then show ?case by simp
next
  case (Cons k ks)
  obtain s where sym: "sym_dct k = Some s"
    using Cons.prems(2) [of k] by auto
  from ring_body_returns [of st sym_dct k s, OF Cons.prems(1) sym] obtain st1 where
    step: "ring_zmatrix_body sym_dct st k = Inr st1" and inv1: "ring_inv st1"
    and dom1: "dom (v_row_dct st1) = insert k (dom (v_row_dct st))"
    by blast
  have "\<And>k'. k' \<in> set ks \<Longrightarrow> sym_dct k' \<noteq> None"
    using Cons.prems(2) by simp
  from Cons.IH [OF inv1 this] obtain st' where
    "for_each (ring_zmatrix_body sym_dct) ks st1 = Inr st'"
    and "dom (v_row_dct st') = dom (v_row_dct st1) \<union> set ks"
    by blast
  then show ?case
    by (auto simp: step dom1)
qed

lemma getitems_returns:
  assumes "set ks \<subseteq> dom d"
  shows "\<exists>vs. getitems d ks = Inr vs"
  using assms by (induction ks) auto

text \<open>
  C6. When \<open>ring_arc_bond_angle\<close> yields an angle for the whole key sequence and every
  key has a symbol, \<open>ring_zmatrix\<close> returns one row per key, and every row carries the
  same value row: the bond distance, that one bond angle, and the dihedral 0.
\<close>

theorem ring_zmatrix_uniform_values:
  assumes bond: "bond_dist = (case bond_dist_arg of None \<Rightarrow> XY_DIST | Some b \<Rightarrow> b)"
    and end': "end_dist = (case end_dist_arg of None \<Rightarrow> XY_DIST | Some e \<Rightarrow> e)"
    and ang: "ring_arc_bond_angle root_scalar (int (length ring_keys)) end_dist bond_dist
                = Inr bond_ang"
    and syms: "\<forall>k \<in> set ring_keys. atom_symbols gra k \<noteq> None"
  shows "\<exists>zm ring_rows.
           ring_zmatrix root_scalar gra ring_keys bond_dist_arg end_dist_arg
             = Inr (zm, ring_rows)
           \<and> length zm = length ring_keys
           \<and> (\<forall>row \<in> set zm. val_row row = [Some bond_dist, Some bond_ang, Some 0])"
proof -
  define init where "init = ring_zmatrix_init bond_dist bond_ang"
  have "ring_inv init"
    by (simp add: ring_inv_def init_def ring_zmatrix_init_def)
  moreover have "\<And>k. k \<in> set ring_keys \<Longrightarrow> atom_symbols gra k \<noteq> None"
    using syms by blast
  ultimately obtain st where
    run: "for_each (ring_zmatrix_body (atom_symbols gra)) ring_keys init = Inr st"
    and doms: "dom (v_row_dct st) = dom (v_row_dct init) \<union> set ring_keys"
    using ring_loop_returns by blast
  have "set ring_keys \<subseteq> dom (v_row_dct st)"
    using doms by blast
  then obtain ring_rows where rows: "getitems (v_row_dct st) ring_keys = Inr ring_rows"
    using getitems_returns by blast
  have res: "ring_zmatrix root_scalar gra ring_keys bond_dist_arg end_dist_arg
               = Inr (v_zma st, ring_rows)"
    using ang run rows
    by (simp add: ring_zmatrix_def Let_def bond [symmetric] end' [symmetric] init_def)
  have "length (v_zma st) = length (v_zma init) + length ring_keys
        \<and> (\<forall>row \<in> set (v_zma st). val_row row = [v_r34 init, v_a234 init, v_d1234 init])"
    by (rule ring_loop_vals [OF run]) (simp add: init_def ring_zmatrix_init_def)
  then have "length (v_zma st) = length ring_keys"
    and "\<forall>row \<in> set (v_zma st). val_row row = [Some bond_dist, Some bond_ang, Some 0]"
    by (simp_all add: init_def ring_zmatrix_init_def)
  then show ?thesis
    using res by blast
qed

lemma hexagon_angle: "ring_arc_bond_angle (exact_root_finder (5 * pi / 3)) 6 1.5 1.5 = Inr 120"
  by (simp add: ring_arc_bond_angle_def exact_root_finder_def radian_to_degree_def
      round_double_15_2)

lemma example_ring_zmatrix:
  "ring_zmatrix (exact_root_finder (5 * pi / 3)) example_ring_gra [0, 1, 2, 3, 4, 5] None None
     = Inr (example_ring_zma, [0, 1, 2, 3, 4, 5])"
  using hexagon_angle
  by (simp add: ring_zmatrix_def XY_DIST_def Let_def ring_zmatrix_body_def
      ring_zmatrix_init_def count_def add_atom_def example_ring_gra_def atom_symbols_def
      atoms_def example_ring_zma_def example_ring_row_def eval_nat_numeral)

theorem ring_zmatrix_uniform_values_witness:
  "ring_arc_bond_angle (exact_root_finder (5 * pi / 3)) 6 1.5 1.5 = Inr 120
   \<and> list_all (\<lambda>k. atom_symbols example_ring_gra k \<noteq> None) [0, 1, 2, 3, 4, 5]
   \<and> ring_zmatrix (exact_root_finder (5 * pi / 3)) example_ring_gra [0, 1, 2, 3, 4, 5]
         None None
       = Inr (example_ring_zma, [0, 1, 2, 3, 4, 5])
   \<and> length example_ring_zma = 6
   \<and> list_all (\<lambda>row. val_row row = [Some 1.5, Some 120, Some 0]) example_ring_zma"
proof -
  have dflt: "(1.5 :: real) = (case None of None \<Rightarrow> XY_DIST | Some b \<Rightarrow> b)"
    by (simp add: XY_DIST_def)
  have len: "length [0, 1, 2, 3, 4, 5 :: nat] = 6" "int 6 = 6"
    by simp_all
  have ang: "ring_arc_bond_angle (exact_root_finder (5 * pi / 3))
               (int (length [0, 1, 2, 3, 4, 5 :: nat])) 1.5 1.5 = Inr 120"
    unfolding len by (rule hexagon_angle)
  have syms: "\<forall>k \<in> set [0, 1, 2, 3, 4, 5]. atom_symbols example_ring_gra k \<noteq> None"
    by (simp add: atom_symbols_def atoms_def example_ring_gra_def)
  from ring_zmatrix_uniform_values [OF dflt dflt ang syms]
  obtain zm ring_rows where
    res: "ring_zmatrix (exact_root_finder (5 * pi / 3)) example_ring_gra [0, 1, 2, 3, 4, 5]
            None None = Inr (zm, ring_rows)"
    and n: "length zm = 6"
    and rows: "\<forall>row \<in> set zm. val_row row = [Some 1.5, Some 120, Some 0]"
    unfolding len by blast
  from res have zm: "zm = example_ring_zma"
    by (simp only: example_ring_zmatrix sum.inject prod.inject)
  have "list_all (\<lambda>row. val_row row = [Some 1.5, Some 120, Some 0]) example_ring_zma"
    using rows unfolding zm by (simp only: list_all_iff)
  moreover have "list_all (\<lambda>k. atom_symbols example_ring_gra k \<noteq> None) [0, 1, 2, 3, 4, 5]"
    using syms by (simp only: list_all_iff)
  ultimately show ?thesis
    using hexagon_angle example_ring_zmatrix n zm by blast
qed

text \<open>
  C5 (as the code has it). When the caller gives a bond distance and no end distance,
  the end distance is the constant \<open>XY_DIST = 1.5\<close>, whatever the bond distance: the
  call equals the one with the end distance 1.5.
\<close>

theorem ring_zmatrix_default_end_dist:
  "ring_zmatrix root_scalar gra ring_keys (Some bond_dist) None
     = ring_zmatrix root_scalar gra ring_keys (Some bond_dist) (Some 1.5)"
  by (simp add: ring_zmatrix_def XY_DIST_def)

lemma example_ring_zmatrix_two:
  "ring_zmatrix root_scalar example_gra [0, 1] (Some bond_dist) (Some end_dist)
     = bind (ring_arc_bond_angle root_scalar 2 end_dist bond_dist)
         (\<lambda>bond_ang. Inr ([example_ring_row [None, None, None] bond_dist bond_ang,
                          example_ring_row [Some 0, None, None] bond_dist bond_ang],
                         [0, 1]))"
  by (cases "ring_arc_bond_angle root_scalar 2 end_dist bond_dist")
    (simp_all add: ring_zmatrix_def Let_def ring_zmatrix_body_def
      ring_zmatrix_init_def count_def add_atom_def example_gra_def atom_symbols_def
      atoms_def example_ring_row_def)

text \<open>
  For the bond distance 1.1 and the two keys 0, 1 the default end distance 1.5 is longer
  than the one bond, so the angle is 180; with the end distance 1.1 the root finder is
  called (the residual is zero on the whole bracket) and the angle is below 180.
\<close>

theorem ring_zmatrix_default_end_dist_counterexample:
  "ring_zmatrix lower_end_finder example_gra [0, 1] (Some 1.1) None
     = Inr ([example_ring_row [None, None, None] 1.1 180,
             example_ring_row [Some 0, None, None] 1.1 180], [0, 1])
   \<and> ring_zmatrix lower_end_finder example_gra [0, 1] (Some 1.1) (Some 1.1)
     = Inr ([example_ring_row [None, None, None] 1.1 (180 - 1.8 / pi),
             example_ring_row [Some 0, None, None] 1.1 (180 - 1.8 / pi)], [0, 1])
   \<and> \<not> (\<exists>root_scalar. respects_bracket root_scalar
          \<and> ring_zmatrix root_scalar example_gra [0, 1] (Some 1.1) None
              = ring_zmatrix root_scalar example_gra [0, 1] (Some 1.1) (Some 1.1))"
proof (intro conjI)
  have default: "ring_zmatrix rs example_gra [0, 1] (Some 1.1) None
      = Inr ([example_ring_row [None, None, None] 1.1 180,
              example_ring_row [Some 0, None, None] 1.1 180], [0, 1])" for rs
  proof -
    have "ring_zmatrix rs example_gra [0, 1] (Some 1.1) None
            = ring_zmatrix rs example_gra [0, 1] (Some 1.1) (Some 1.5)"
      by (simp add: ring_zmatrix_def XY_DIST_def)
    also have "\<dots> = Inr ([example_ring_row [None, None, None] 1.1 180,
                    example_ring_row [Some 0, None, None] 1.1 180], [0, 1])"
    proof -
      have "ring_arc_bond_angle rs 2 1.5 1.1 = Inr 180"
        using round_double_11_10 by (simp add: ring_arc_bond_angle_def)
      then show ?thesis
        by (simp only: example_ring_zmatrix_two bind_Inr)
    qed
    finally show ?thesis .
  qed
  show "ring_zmatrix lower_end_finder example_gra [0, 1] (Some 1.1) None
     = Inr ([example_ring_row [None, None, None] 1.1 180,
             example_ring_row [Some 0, None, None] 1.1 180], [0, 1])"
    by (rule default)
  have "ring_arc_bond_angle lower_end_finder 2 1.1 1.1 = Inr (180 - 1.8 / pi)"
    using pi_ge_two round_double_11_10
    by (simp add: ring_arc_bond_angle_def lower_end_finder_def radian_to_degree_def)
  then show "ring_zmatrix lower_end_finder example_gra [0, 1] (Some 1.1) (Some 1.1)
     = Inr ([example_ring_row [None, None, None] 1.1 (180 - 1.8 / pi),
             example_ring_row [Some 0, None, None] 1.1 (180 - 1.8 / pi)], [0, 1])"
    by (simp only: example_ring_zmatrix_two bind_Inr)
  show "\<not> (\<exists>root_scalar. respects_bracket root_scalar
          \<and> ring_zmatrix root_scalar example_gra [0, 1] (Some 1.1) None
              = ring_zmatrix root_scalar example_gra [0, 1] (Some 1.1) (Some 1.1))"
  proof
    assume "\<exists>root_scalar. respects_bracket root_scalar
          \<and> ring_zmatrix root_scalar example_gra [0, 1] (Some 1.1) None
              = ring_zmatrix root_scalar example_gra [0, 1] (Some 1.1) (Some 1.1)"
    then obtain rs where rb: "respects_bracket rs"
      and eq: "ring_zmatrix rs example_gra [0, 1] (Some 1.1) None
                 = ring_zmatrix rs example_gra [0, 1] (Some 1.1) (Some 1.1)"
      by blast
    have ne: "ring_arc_bond_angle rs 2 1.1 1.1 \<noteq> Inr 180"
    proof (rule solver_branch_not_straight [OF rb])
      show "\<not> round_double (real_of_int (2 - 1) * 1.1) < 1.1"
        using round_double_11_10 by simp
    qed
    show False
    proof (cases "ring_arc_bond_angle rs 2 1.1 1.1")
      case (Inl e)
      then have "ring_zmatrix rs example_gra [0, 1] (Some 1.1) (Some 1.1) = Inl e"
        by (simp only: example_ring_zmatrix_two bind_Inl)
      then show False
        using eq by (simp only: default) simp
    next
      case (Inr ang)
      then have "ring_zmatrix rs example_gra [0, 1] (Some 1.1) (Some 1.1)
                   = Inr ([example_ring_row [None, None, None] 1.1 ang,
                           example_ring_row [Some 0, None, None] 1.1 ang], [0, 1])"
        by (simp only: example_ring_zmatrix_two bind_Inr)
      then have "example_ring_row [None, None, None] 1.1 180
                   = example_ring_row [None, None, None] 1.1 ang"
        using eq by (simp only: default) simp
      then have "ang = 180"
        by (simp add: example_ring_row_def)
      then show False using ne Inr by simp
    qed
  qed
qed

subsection \<open>The ring system composer\<close>

text \<open>
  C1 (what the code does instead). \<open>ring_system_zmatrix\<close> takes the primary ring and the
  first arc from the decomposition and nothing more: any further arcs do not change
  its result.
\<close>

theorem ring_system_zmatrix_first_arc_only:
  "ring_system_zmatrix root_scalar distance central_angle join_replace_one geometry gra
     (ring_keys # arc_keys # more_arcs)
   = ring_system_zmatrix root_scalar distance central_angle join_replace_one geometry gra
       [ring_keys, arc_keys]"
  by (simp add: ring_system_zmatrix_def)

end
